theory Spec2Isabelle
  imports Main
begin

section \<open>The homepage feature cards (src/components/HomepageFeatures/index.tsx)\<close>

text \<open>
  The only executable logic of the repository is the React module
  \<^verbatim>\<open>src/components/HomepageFeatures/index.tsx\<close>: a static table \<open>FeatureList\<close>, the
  component \<open>Feature\<close> that turns one table entry into a card, and the component
  \<open>HomepageFeatures\<close> that maps the table to a row of cards.  The model below is the
  element tree the JSX of that module builds.
\<close>

subsection \<open>Element trees\<close>

text \<open>
  An icon is a component obtained from an SVG asset module
  (\<^verbatim>\<open>require('@site/static/img/compass.svg').default\<close>); the module only holds and passes
  on the reference, which is modelled by the asset path.
\<close>

datatype svg_component = SvgAsset string

text \<open>
  The type of an element: an intrinsic element named by its tag (\<^verbatim>\<open><div>\<close>), the theme's
  heading component imported from \<^verbatim>\<open>@theme/Heading\<close>, or an icon component.
\<close>

datatype element_type = Intrinsic string | Heading | SvgComponent svg_component

text \<open>
  A \<open>ReactNode\<close>: a text child, a fragment (\<^verbatim>\<open><>...</>\<close>), an element with its
  string-valued props in source order and its children, or an element of this module's own
  component \<^verbatim>\<open><Feature key={k} title=.. Svg=.. description=.. />\<close>, which carries the
  key and the three props of \<open>FeatureItem\<close>.
\<close>

datatype ReactNode =
    Text string
  | Fragment "ReactNode list"
  | Element element_type "(string \<times> string) list" "ReactNode list"
  | FeatureElement "nat option" string svg_component ReactNode

text \<open>Lines 6-10: \<^verbatim>\<open>type FeatureItem = { title; Svg; description }\<close>.\<close>

record FeatureItem =
  title :: string
  Svg :: svg_component
  description :: ReactNode

text \<open>
  The CSS module \<^verbatim>\<open>./styles.module.css\<close> maps the local names \<open>features\<close> and
  \<open>featureSvg\<close> to generated class names.  The stylesheet is not part of the sources, so
  the two class names are parameters of the model.
\<close>

record styles_module =
  features :: string
  featureSvg :: string

subsection \<open>Library functions the module calls\<close>

text \<open>
  \<^verbatim>\<open>clsx\<close> on string arguments: the non-empty arguments joined by single spaces.
\<close>

fun clsx :: "string list \<Rightarrow> string" where
  "clsx [] = []"
| "clsx (x # xs) =
     (if x = [] then clsx xs
      else if clsx xs = [] then x
      else x @ '' '' @ clsx xs)"

text \<open>
  \<^verbatim>\<open>Array.prototype.map\<close> with the two-argument callback \<^verbatim>\<open>(element, index) => ...\<close>:
  elements are visited in order and the index counts from 0.
\<close>

fun map_from :: "('a \<Rightarrow> nat \<Rightarrow> 'b) \<Rightarrow> nat \<Rightarrow> 'a list \<Rightarrow> 'b list" where
  "map_from f i [] = []"
| "map_from f i (x # xs) = f x i # map_from f (Suc i) xs"

definition array_map :: "('a \<Rightarrow> nat \<Rightarrow> 'b) \<Rightarrow> 'a list \<Rightarrow> 'b list" where
  "array_map f xs = map_from f 0 xs"

subsection \<open>The module\<close>

text \<open>Lines 12-40: the static table.\<close>

definition FeatureList :: "FeatureItem list" where
  "FeatureList =
    [ \<lparr> title = ''Solve the Chaos'',
        Svg = SvgAsset ''@site/static/img/compass.svg'',
        description = Fragment [Text ''Express.js is powerful but unopinionated. We provide the missing framework: a clear, consistent structure (Controllers, Services, Repositories) for scalable projects.''] \<rparr>,
      \<lparr> title = ''Production Focus'',
        Svg = SvgAsset ''@site/static/img/cloud.svg'',
        description = Fragment [Text ''Move beyond simple CRUD. Learn essential real-world concepts like Dockerization, CI/CD pipelines, robust error handling, and security hardening from day one.''] \<rparr>,
      \<lparr> title = ''End-to-End Backend'',
        Svg = SvgAsset ''@site/static/img/link.svg'',
        description = Fragment [Text ''Gain expert-level implementation knowledge for architecting, securing, testing, and deploying robust API services''] \<rparr> ]"

text \<open>Lines 42-54: \<^verbatim>\<open>function Feature({ title, Svg, description }: FeatureItem)\<close>.\<close>

definition Feature :: "styles_module \<Rightarrow> FeatureItem \<Rightarrow> ReactNode" where
  "Feature styles item =
    Element (Intrinsic ''div'') [(''className'', clsx [''col col--4''])]
      [ Element (Intrinsic ''div'') [(''className'', ''text--center'')]
          [ Element (SvgComponent (Svg item))
              [(''className'', featureSvg styles), (''role'', ''img'')] [] ],
        Element (Intrinsic ''div'') [(''className'', ''text--center padding-horiz--md'')]
          [ Element Heading [(''as'', ''h3'')] [Text (title item)],
            Element (Intrinsic ''p'') [] [description item] ] ]"

text \<open>
  Lines 56-68: \<^verbatim>\<open>HomepageFeatures\<close>, with the table it maps over made an argument, so
  that input sequences of any length are covered.  The spread
  \<^verbatim>\<open>{...props}\<close> passes the three fields of the entry.
\<close>

definition HomepageFeatures_of :: "styles_module \<Rightarrow> FeatureItem list \<Rightarrow> ReactNode" where
  "HomepageFeatures_of styles items =
    Element (Intrinsic ''section'') [(''className'', features styles)]
      [ Element (Intrinsic ''div'') [(''className'', ''container'')]
          [ Element (Intrinsic ''div'') [(''className'', ''row'')]
              (array_map
                 (\<lambda>props idx. FeatureElement (Some idx) (title props) (Svg props) (description props))
                 items) ] ]"

text \<open>The component as exported: it takes no props and reads the static table.\<close>

definition HomepageFeatures :: "styles_module \<Rightarrow> ReactNode" where
  "HomepageFeatures styles = HomepageFeatures_of styles FeatureList"

subsection \<open>Rendering the module's own component\<close>

text \<open>
  React renders a \<^verbatim>\<open><Feature .../>\<close> element by calling \<open>Feature\<close> on its props and
  rendering what it returns.  \<open>render\<close> does this for every \<open>Feature\<close> element of a
  tree; elements of other types keep their type and props.  \<open>Feature\<close> places its
  \<open>description\<close> prop unchanged as the only child of the paragraph, so rendering the
  returned tree is the same as returning the tree over the rendered description
  (lemma \<open>render_Feature\<close> below), which makes the recursion structural.
\<close>

fun render :: "styles_module \<Rightarrow> ReactNode \<Rightarrow> ReactNode" where
  "render styles (Text s) = Text s"
| "render styles (Fragment cs) = Fragment (map (render styles) cs)"
| "render styles (Element t props cs) = Element t props (map (render styles) cs)"
| "render styles (FeatureElement k t s d) =
     Feature styles \<lparr> title = t, Svg = s, description = render styles d \<rparr>"

subsection \<open>Observations on element trees\<close>

text \<open>
  The children of the row: the tree is a section holding one container holding one row.
\<close>

fun row_children :: "ReactNode \<Rightarrow> ReactNode list" where
  "row_children (Element s a [Element c a' [Element r a'' cs]]) = cs"
| "row_children _ = []"

text \<open>The visual blocks of a tree: the children of the row once the tree is rendered.\<close>

definition blocks :: "styles_module \<Rightarrow> ReactNode \<Rightarrow> ReactNode list" where
  "blocks styles t = row_children (render styles t)"

text \<open>
  The parts of one block, read off by position: the block is an element with two children,
  the first holding the icon, the second holding the heading and then the paragraph.
\<close>

fun block_icon :: "ReactNode \<Rightarrow> ReactNode option" where
  "block_icon (Element t a [Element t1 a1 [icon], lower]) = Some icon"
| "block_icon _ = None"

fun block_heading :: "ReactNode \<Rightarrow> ReactNode option" where
  "block_heading (Element t a [upper, Element t2 a2 [h, p]]) = Some h"
| "block_heading _ = None"

fun block_paragraph :: "ReactNode \<Rightarrow> ReactNode option" where
  "block_paragraph (Element t a [upper, Element t2 a2 [h, p]]) = Some p"
| "block_paragraph _ = None"

fun element_type_of :: "ReactNode \<Rightarrow> element_type option" where
  "element_type_of (Element t props cs) = Some t"
| "element_type_of _ = None"

fun children_of :: "ReactNode \<Rightarrow> ReactNode list" where
  "children_of (Element t props cs) = cs"
| "children_of (Fragment cs) = cs"
| "children_of _ = []"

fun prop_of :: "string \<Rightarrow> ReactNode \<Rightarrow> string option" where
  "prop_of name (Element t props cs) = map_of props name"
| "prop_of name _ = None"

fun key_of :: "ReactNode \<Rightarrow> nat option" where
  "key_of (FeatureElement k t s d) = k"
| "key_of _ = None"

subsection \<open>Column classes\<close>

text \<open>
  The site's stylesheet framework lays a row out on a grid of twelve columns; an element
  of class \<^verbatim>\<open>col col--n\<close> spans \<open>n\<close> of them.  The framework is outside the repository:
  \<open>grid_columns\<close> records its column count, and \<open>col_span\<close> reads the span off a
  \<open>className\<close> value.
\<close>

definition grid_columns :: nat where
  "grid_columns = 12"

fun class_tokens_from :: "string \<Rightarrow> string \<Rightarrow> string list" where
  "class_tokens_from cur [] = (if cur = [] then [] else [cur])"
| "class_tokens_from cur (c # cs) =
     (if c = CHR '' ''
      then (if cur = [] then class_tokens_from [] cs else cur # class_tokens_from [] cs)
      else class_tokens_from (cur @ [c]) cs)"

definition class_tokens :: "string \<Rightarrow> string list" where
  "class_tokens cls = class_tokens_from [] cls"

definition digit_val :: "char \<Rightarrow> nat option" where
  "digit_val c =
     map_of [(CHR ''0'', 0), (CHR ''1'', 1), (CHR ''2'', 2), (CHR ''3'', 3), (CHR ''4'', 4),
             (CHR ''5'', 5), (CHR ''6'', 6), (CHR ''7'', 7), (CHR ''8'', 8), (CHR ''9'', 9)] c"

fun parse_digits :: "nat \<Rightarrow> string \<Rightarrow> nat option" where
  "parse_digits acc [] = Some acc"
| "parse_digits acc (c # cs) =
     (case digit_val c of None \<Rightarrow> None | Some d \<Rightarrow> parse_digits (10 * acc + d) cs)"

definition col_span_token :: "string \<Rightarrow> nat option" where
  "col_span_token tok =
     (if take 5 tok = ''col--'' \<and> drop 5 tok \<noteq> [] then parse_digits 0 (drop 5 tok) else None)"

definition col_span :: "string \<Rightarrow> nat option" where
  "col_span cls =
     (case List.map_filter col_span_token (class_tokens cls) of
        [] \<Rightarrow> None
      | n # ns \<Rightarrow> Some n)"

definition block_col_span :: "ReactNode \<Rightarrow> nat option" where
  "block_col_span b = Option.bind (prop_of ''className'' b) col_span"

text \<open>
  A block claims the share \<open>num / den\<close> of the row when it has a column span \<open>n\<close> with
  \<open>n / grid_columns = num / den\<close>.
\<close>

definition claims_share :: "ReactNode \<Rightarrow> nat \<Rightarrow> nat \<Rightarrow> bool" where
  "claims_share b num den =
     (case block_col_span b of
        None \<Rightarrow> False
      | Some n \<Rightarrow> n * den = num * grid_columns)"

subsection \<open>The module in its environment\<close>

text \<open>
  A coarse view of a render pass, in which the array bound to the module constant
  \<open>FeatureList\<close> is a value of the environment next to the trace of input/output: the
  pass takes the environment and returns the rendered tree with the environment it leaves
  behind.  The view on the heap, where the objects the pass creates are visible, follows.
\<close>

datatype io_event = NetworkRequest string | StorageRead string | StorageWrite string string

record world =
  module_FeatureList :: "FeatureItem list"
  io_trace :: "io_event list"

definition initial_world :: world where
  "initial_world = \<lparr> module_FeatureList = FeatureList, io_trace = [] \<rparr>"

definition HomepageFeatures_call :: "styles_module \<Rightarrow> world \<Rightarrow> ReactNode \<times> world" where
  "HomepageFeatures_call styles w = (HomepageFeatures_of styles (module_FeatureList w), w)"

definition render_page :: "styles_module \<Rightarrow> world \<Rightarrow> ReactNode \<times> world" where
  "render_page styles w =
     (case HomepageFeatures_call styles w of (t, w') \<Rightarrow> (render styles t, w'))"

subsection \<open>The module on the heap\<close>

text \<open>
  The table and its entries are JavaScript objects, and the component creates further
  objects while it runs.  The heap is the list of objects allocated so far; an address is
  a position in it, and allocation appends.  An array holds cells: references to item
  objects (the entries of the table), or \<^verbatim>\<open><Feature/>\<close> elements, each with its key and the
  address of its props object.  The description of an item is an element the module only
  passes on, so it is kept as a value inside the item object.
\<close>

type_synonym addr = nat

datatype cell = ItemRef addr | FeatureEl "nat option" addr

datatype obj = ItemObj FeatureItem | ArrayObj "cell list"

type_synonym heap = "obj list"

definition lookup :: "heap \<Rightarrow> addr \<Rightarrow> obj option" where
  "lookup h a = (if a < length h then Some (h ! a) else None)"

definition alloc :: "heap \<Rightarrow> obj \<Rightarrow> addr \<times> heap" where
  "alloc h ob = (length h, h @ [ob])"

text \<open>
  Reads.  \<open>None\<close> stands for a heap that does not hold what the declared types promise
  at the address (no object, or an object of another kind).
\<close>

definition read_item :: "heap \<Rightarrow> addr \<Rightarrow> FeatureItem option" where
  "read_item h a = (case lookup h a of Some (ItemObj item) \<Rightarrow> Some item | _ \<Rightarrow> None)"

definition read_cell :: "heap \<Rightarrow> addr \<Rightarrow> nat \<Rightarrow> cell option" where
  "read_cell h arr i =
     (case lookup h arr of
        Some (ArrayObj cells) \<Rightarrow> (if i < length cells then Some (cells ! i) else None)
      | _ \<Rightarrow> None)"

definition array_length :: "heap \<Rightarrow> addr \<Rightarrow> nat option" where
  "array_length h arr =
     (case lookup h arr of Some (ArrayObj cells) \<Rightarrow> Some (length cells) | _ \<Rightarrow> None)"

text \<open>
  Lines 61-63, the callback \<^verbatim>\<open>(props, idx) => <Feature key={idx} {...props} />\<close>: it reads
  the entry \<open>props\<close> refers to, allocates a new props object into which the spread copies
  the entry's fields, and returns the element with key \<open>idx\<close> over that new object.
\<close>

definition feature_callback :: "cell \<Rightarrow> nat \<Rightarrow> heap \<Rightarrow> (cell \<times> heap) option" where
  "feature_callback props idx h =
     (case props of
        ItemRef a \<Rightarrow>
          (case read_item h a of
             None \<Rightarrow> None
           | Some item \<Rightarrow>
               (case alloc h (ItemObj \<lparr>title = title item, Svg = Svg item,
                                       description = description item\<rparr>) of
                  (p, h') \<Rightarrow> Some (FeatureEl (Some idx) p, h')))
      | FeatureEl k p \<Rightarrow> None)"

text \<open>
  \<^verbatim>\<open>Array.prototype.map\<close> on the heap: the length is read once, then for each index in
  order the cell is read from the array as it is in the current heap and the callback is
  run on it; at the end a new array holding the results is allocated.
\<close>

primrec map_steps ::
  "(cell \<Rightarrow> nat \<Rightarrow> heap \<Rightarrow> (cell \<times> heap) option) \<Rightarrow> addr \<Rightarrow> nat \<Rightarrow> nat \<Rightarrow> heap
     \<Rightarrow> (cell list \<times> heap) option" where
  "map_steps f arr i 0 h = Some ([], h)"
| "map_steps f arr i (Suc k) h =
     (case read_cell h arr i of
        None \<Rightarrow> None
      | Some c \<Rightarrow>
          (case f c i h of
             None \<Rightarrow> None
           | Some (y, h1) \<Rightarrow>
               (case map_steps f arr (Suc i) k h1 of
                  None \<Rightarrow> None
                | Some (ys, h2) \<Rightarrow> Some (y # ys, h2))))"

definition array_map_heap ::
  "(cell \<Rightarrow> nat \<Rightarrow> heap \<Rightarrow> (cell \<times> heap) option) \<Rightarrow> addr \<Rightarrow> heap \<Rightarrow> (addr \<times> heap) option" where
  "array_map_heap f arr h =
     (case array_length h arr of
        None \<Rightarrow> None
      | Some n \<Rightarrow>
          (case map_steps f arr 0 n h of
             None \<Rightarrow> None
           | Some (ys, h1) \<Rightarrow> Some (alloc h1 (ArrayObj ys))))"

text \<open>
  The children of the row as React finds them when it traverses the returned element:
  each \<^verbatim>\<open><Feature/>\<close> element with the props read from its props object.
\<close>

definition element_of_cell :: "heap \<Rightarrow> cell \<Rightarrow> ReactNode option" where
  "element_of_cell h c =
     (case c of
        FeatureEl k p \<Rightarrow>
          (case read_item h p of
             None \<Rightarrow> None
           | Some item \<Rightarrow> Some (FeatureElement k (title item) (Svg item) (description item)))
      | ItemRef a \<Rightarrow> None)"

definition children_at :: "heap \<Rightarrow> addr \<Rightarrow> ReactNode list option" where
  "children_at h arr =
     (case lookup h arr of
        Some (ArrayObj cells) \<Rightarrow> those (map (element_of_cell h) cells)
      | _ \<Rightarrow> None)"

text \<open>
  Lines 56-68 on the heap: \<open>table\<close> is the address of the array bound to \<open>FeatureList\<close>.
\<close>

definition HomepageFeatures_run ::
  "styles_module \<Rightarrow> addr \<Rightarrow> heap \<Rightarrow> (ReactNode \<times> heap) option" where
  "HomepageFeatures_run styles table h =
     (case array_map_heap feature_callback table h of
        None \<Rightarrow> None
      | Some (arr, h') \<Rightarrow>
          (case children_at h' arr of
             None \<Rightarrow> None
           | Some children \<Rightarrow>
               Some (Element (Intrinsic ''section'') [(''className'', features styles)]
                       [ Element (Intrinsic ''div'') [(''className'', ''container'')]
                           [ Element (Intrinsic ''div'') [(''className'', ''row'')] children ] ],
                     h')))"

text \<open>A render pass: the component is run and the element it returns is rendered.\<close>

definition render_pass :: "styles_module \<Rightarrow> addr \<Rightarrow> heap \<Rightarrow> (ReactNode \<times> heap) option" where
  "render_pass styles table h =
     (case HomepageFeatures_run styles table h of
        None \<Rightarrow> None
      | Some (t, h') \<Rightarrow> Some (render styles t, h'))"

text \<open>
  The table a heap holds at an address: the items its cells refer to, in order, when the
  address holds an array and each of its cells refers to an item object.
\<close>

definition item_of_cell :: "heap \<Rightarrow> cell \<Rightarrow> FeatureItem option" where
  "item_of_cell h c = (case c of ItemRef a \<Rightarrow> read_item h a | FeatureEl k p \<Rightarrow> None)"

definition table_at :: "heap \<Rightarrow> addr \<Rightarrow> FeatureItem list option" where
  "table_at h arr =
     (case lookup h arr of
        Some (ArrayObj cells) \<Rightarrow> those (map (item_of_cell h) cells)
      | _ \<Rightarrow> None)"

text \<open>
  The heap once the module is loaded (lines 12-40): the three item objects and the array
  that refers to them.
\<close>

definition initial_heap :: heap where
  "initial_heap = map ItemObj FeatureList @ [ArrayObj [ItemRef 0, ItemRef 1, ItemRef 2]]"

definition FeatureList_addr :: addr where
  "FeatureList_addr = 3"

text \<open>
  The heap a run on a table of \<open>items\<close> leaves: the old heap, then one props object per
  item, then the array of the elements.
\<close>

definition heap_after :: "heap \<Rightarrow> FeatureItem list \<Rightarrow> heap" where
  "heap_after h items =
     h @ map ItemObj items
       @ [ArrayObj (map (\<lambda>j. FeatureEl (Some j) (length h + j)) [0..<length items])]"

section \<open>Properties\<close>

lemma render_Feature:
  "render styles (Feature styles item) =
     Feature styles (item\<lparr>description := render styles (description item)\<rparr>)"
  by (simp add: Feature_def)

lemma length_map_from: "length (map_from f i xs) = length xs"
  by (induction xs arbitrary: i) simp_all

lemma render_map_from:
  "map (render styles)
     (map_from (\<lambda>props idx. FeatureElement (Some idx) (title props) (Svg props) (description props)) i items)
   = map (\<lambda>item. Feature styles (item\<lparr>description := render styles (description item)\<rparr>)) items"
proof (induction items arbitrary: i)
  case Nil
  show ?case by simp
next
  case (Cons item items)
  then show ?case by (cases item) simp
qed

lemma blocks_HomepageFeatures_of:
  "blocks styles (HomepageFeatures_of styles items)
   = map (\<lambda>item. Feature styles (item\<lparr>description := render styles (description item)\<rparr>)) items"
  by (simp add: blocks_def HomepageFeatures_of_def array_map_def render_map_from)

text \<open>
  C1. For every input sequence of length N, the rendered section holds exactly N visual
  blocks: the block at each position is the card \<open>Feature\<close> builds for the item at that
  position, so the blocks come one per item and in the order of the input.
\<close>

theorem C1_one_block_per_item_in_order:
  "length (blocks styles (HomepageFeatures_of styles items)) = length items
   \<and> blocks styles (HomepageFeatures_of styles items)
     = map (\<lambda>item. Feature styles (item\<lparr>description := render styles (description item)\<rparr>)) items"
  by (simp add: blocks_HomepageFeatures_of)

text \<open>
  C2. The heading of the block \<open>Feature\<close> builds has the item's \<open>title\<close> as its only
  child, as a text node holding the same string, and the paragraph has the item's
  \<open>description\<close> as its only child, passed through as it is.
\<close>

theorem C2_heading_is_title_paragraph_is_description:
  "map_option children_of (block_heading (Feature styles item)) = Some [Text (title item)]
   \<and> map_option children_of (block_paragraph (Feature styles item)) = Some [description item]"
  by (simp add: Feature_def)

text \<open>
  C3. In the block \<open>Feature\<close> builds, and so in every block of the rendered section, the
  icon is an element of the item's own SVG component (an inline image) whose \<open>role\<close> prop
  is \<open>img\<close>, the token by which ARIA names the image role.
\<close>

theorem C3_icon_has_image_role:
  "Option.bind (block_icon (Feature styles item)) element_type_of = Some (SvgComponent (Svg item))
   \<and> Option.bind (block_icon (Feature styles item)) (prop_of ''role'') = Some ''img''
   \<and> map (\<lambda>b. Option.bind (block_icon b) (prop_of ''role''))
         (blocks styles (HomepageFeatures_of styles items))
       = map (\<lambda>item. Some ''img'') items"
  by (simp add: blocks_HomepageFeatures_of Feature_def)

lemma FeatureList_titles:
  "map title FeatureList = [''Solve the Chaos'', ''Production Focus'', ''End-to-End Backend'']"
  by (simp add: FeatureList_def)

lemma heading_of_rendered_block:
  "map_option children_of
     (block_heading (Feature styles (item\<lparr>description := d\<rparr>))) = Some [Text (title item)]"
  by (simp add: Feature_def)

text \<open>
  C4. The static table is a constant of the module with exactly three entries; their
  titles, in order, are the three given strings, none of them empty; the headings of the
  rendered blocks show these titles in the same order; and a render pass started on the
  module leaves the table as it was.
\<close>

theorem C4_FeatureList_invariant:
  "length FeatureList = 3
   \<and> map title FeatureList = [''Solve the Chaos'', ''Production Focus'', ''End-to-End Backend'']
   \<and> filter (\<lambda>item. title item = []) FeatureList = []
   \<and> map (\<lambda>b. map_option children_of (block_heading b)) (blocks styles (HomepageFeatures styles))
       = map (\<lambda>item. Some [Text (title item)]) FeatureList
   \<and> module_FeatureList (snd (render_page styles initial_world)) = FeatureList"
proof -
  have three: "length FeatureList = 3"
    by (simp add: FeatureList_def)
  have nonempty: "filter (\<lambda>item. title item = []) FeatureList = []"
    by (simp add: FeatureList_def)
  have order: "map (\<lambda>b. map_option children_of (block_heading b)) (blocks styles (HomepageFeatures styles))
       = map (\<lambda>item. Some [Text (title item)]) FeatureList"
    by (simp add: HomepageFeatures_def blocks_HomepageFeatures_of heading_of_rendered_block)
  have fixed: "module_FeatureList (snd (render_page styles initial_world)) = FeatureList"
    by (simp add: render_page_def HomepageFeatures_call_def initial_world_def)
  from three FeatureList_titles nonempty order fixed show ?thesis by blast
qed

lemma col_span_col4: "col_span ''col col--4'' = Some 4"
  by (simp add: col_span_def class_tokens_def col_span_token_def digit_val_def
        List.map_filter_simps)

lemma className_Feature: "prop_of ''className'' (Feature styles item) = Some ''col col--4''"
  by (simp add: Feature_def)

lemma block_col_span_Feature: "block_col_span (Feature styles item) = Some 4"
  by (simp add: block_col_span_def className_Feature col_span_col4)

lemma claims_third_Feature: "claims_share (Feature styles item) 1 3"
  by (simp add: claims_share_def block_col_span_Feature grid_columns_def)

text \<open>
  C5. Every block carries the class \<^verbatim>\<open>col col--4\<close>, whatever the item and however many
  items there are: a span of 4 of the twelve columns of the row, which is a third of the
  row; with the three items of the static table the three blocks claim equal shares.
\<close>

theorem C5_each_block_spans_a_third:
  "prop_of ''className'' (Feature styles item) = Some ''col col--4''
   \<and> map block_col_span (blocks styles (HomepageFeatures_of styles items))
       = map (\<lambda>item. Some 4) items
   \<and> map (\<lambda>b. claims_share b 1 3) (blocks styles (HomepageFeatures_of styles items))
       = map (\<lambda>item. True) items
   \<and> map (\<lambda>b. claims_share b 1 3) (blocks styles (HomepageFeatures styles))
       = [True, True, True]"
proof -
  have spans: "map block_col_span (blocks styles (HomepageFeatures_of styles items))
       = map (\<lambda>item. Some 4) items"
    by (simp add: blocks_HomepageFeatures_of block_col_span_Feature)
  have thirds: "map (\<lambda>b. claims_share b 1 3) (blocks styles (HomepageFeatures_of styles xs))
       = map (\<lambda>item. True) xs" for xs
    by (simp add: blocks_HomepageFeatures_of claims_third_Feature [simplified])
  have observed: "map (\<lambda>b. claims_share b 1 3) (blocks styles (HomepageFeatures styles))
       = [True, True, True]"
    unfolding HomepageFeatures_def thirds by (simp add: FeatureList_def)
  from className_Feature spans thirds observed show ?thesis by blast
qed

lemma those_eq_Some: "those xs = Some ys \<longleftrightarrow> xs = map Some ys"
  by (induction xs arbitrary: ys) (auto split: option.splits)

lemma lookup_append: "a < length h \<Longrightarrow> lookup (h @ xs) a = lookup h a"
  by (simp add: lookup_def nth_append)

lemma lookup_Some_less: "lookup h a = Some ob \<Longrightarrow> a < length h"
  by (simp add: lookup_def split: if_splits)

lemma read_item_append: "read_item h a = Some item \<Longrightarrow> read_item (h @ xs) a = Some item"
  by (auto simp: read_item_def lookup_def nth_append split: if_splits option.splits obj.splits)

lemma item_of_cell_append:
  "item_of_cell h c = Some item \<Longrightarrow> item_of_cell (h @ xs) c = Some item"
  by (cases c) (simp_all add: item_of_cell_def read_item_append)

lemma table_at_cells:
  "table_at h arr = Some items \<longleftrightarrow>
     (\<exists>cells. lookup h arr = Some (ArrayObj cells) \<and> map (item_of_cell h) cells = map Some items)"
  by (auto simp: table_at_def those_eq_Some split: option.splits obj.splits)

lemma table_at_append:
  assumes "table_at h arr = Some items"
  shows "table_at (h @ xs) arr = Some items"
proof -
  from assms obtain cells where c: "lookup h arr = Some (ArrayObj cells)"
    and m: "map (item_of_cell h) cells = map Some items"
    by (auto simp: table_at_cells)
  from c have "lookup (h @ xs) arr = Some (ArrayObj cells)"
    by (simp add: lookup_append lookup_Some_less)
  moreover have "map (item_of_cell (h @ xs)) cells = map Some items"
  proof (rule nth_equalityI)
    show "length (map (item_of_cell (h @ xs)) cells) = length (map Some items)"
      using m by (metis length_map)
  next
    fix j assume "j < length (map (item_of_cell (h @ xs)) cells)"
    then have j: "j < length cells" by simp
    from m have "map (item_of_cell h) cells ! j = map Some items ! j" by simp
    moreover from m have "length cells = length items" by (metis length_map)
    ultimately have "item_of_cell h (cells ! j) = Some (items ! j)" using j by simp
    then have "item_of_cell (h @ xs) (cells ! j) = Some (items ! j)"
      by (rule item_of_cell_append)
    then show "map (item_of_cell (h @ xs)) cells ! j = map Some items ! j"
      using j \<open>length cells = length items\<close> by simp
  qed
  ultimately show ?thesis by (auto simp: table_at_cells)
qed


lemma cells_items_append:
  assumes m: "map (item_of_cell h) cells = map Some items"
  shows "map (item_of_cell (h @ xs)) cells = map Some items"
proof (rule nth_equalityI)
  show "length (map (item_of_cell (h @ xs)) cells) = length (map Some items)"
    using m by (metis length_map)
next
  fix j assume "j < length (map (item_of_cell (h @ xs)) cells)"
  then have j: "j < length cells" by simp
  from m have len: "length cells = length items" by (metis length_map)
  from m have "map (item_of_cell h) cells ! j = map Some items ! j" by simp
  with j len have "item_of_cell h (cells ! j) = Some (items ! j)" by simp
  then have "item_of_cell (h @ xs) (cells ! j) = Some (items ! j)"
    by (rule item_of_cell_append)
  then show "map (item_of_cell (h @ xs)) cells ! j = map Some items ! j"
    using j len by simp
qed

lemma callback_on_item:
  assumes "item_of_cell h c = Some item"
  shows "feature_callback c idx h = Some (FeatureEl (Some idx) (length h), h @ [ItemObj item])"
  using assms
  by (cases c; cases item) (simp_all add: item_of_cell_def feature_callback_def alloc_def)

lemma map_steps_callback:
  assumes "lookup h arr = Some (ArrayObj cells)"
    and "map (item_of_cell h) cells = map Some items"
    and "i + k = length cells"
  shows "map_steps feature_callback arr i k h =
           Some (map (\<lambda>j. FeatureEl (Some (i + j)) (length h + j)) [0..<k],
                 h @ map ItemObj (take k (drop i items)))"
  using assms
proof (induction k arbitrary: i h)
  case 0
  show ?case by simp
next
  case (Suc k)
  from Suc.prems(2) have len: "length cells = length items" by (metis length_map)
  from Suc.prems(3) have i: "i < length cells" by simp
  from Suc.prems(2) have "map (item_of_cell h) cells ! i = map Some items ! i" by simp
  with i len have item: "item_of_cell h (cells ! i) = Some (items ! i)" by simp
  have cell: "read_cell h arr i = Some (cells ! i)"
    using Suc.prems(1) i by (simp add: read_cell_def)
  let ?h1 = "h @ [ItemObj (items ! i)]"
  have step: "feature_callback (cells ! i) i h = Some (FeatureEl (Some i) (length h), ?h1)"
    using item by (rule callback_on_item)
  have arr1: "lookup ?h1 arr = Some (ArrayObj cells)"
    using Suc.prems(1) by (simp add: lookup_append lookup_Some_less)
  have items1: "map (item_of_cell ?h1) cells = map Some items"
    using Suc.prems(2) by (rule cells_items_append)
  have "Suc i + k = length cells" using Suc.prems(3) by simp
  from Suc.IH [OF arr1 items1 this]
  have rest: "map_steps feature_callback arr (Suc i) k ?h1 =
      Some (map (\<lambda>j. FeatureEl (Some (Suc i + j)) (length ?h1 + j)) [0..<k],
            ?h1 @ map ItemObj (take k (drop (Suc i) items)))" .
  have idx: "map (\<lambda>j. FeatureEl (Some (i + j)) (length h + j)) [0..<Suc k]
      = FeatureEl (Some i) (length h)
        # map (\<lambda>j. FeatureEl (Some (Suc i + j)) (length ?h1 + j)) [0..<k]"
    by (simp add: upt_conv_Cons map_Suc_upt [symmetric] del: upt_Suc)
  from i len have "drop i items = items ! i # drop (Suc i) items"
    by (simp add: Cons_nth_drop_Suc)
  then have hp: "h @ map ItemObj (take (Suc k) (drop i items))
      = ?h1 @ map ItemObj (take k (drop (Suc i) items))"
    by simp
  show ?case
    by (simp only: map_steps.simps cell step rest idx hp option.case prod.case)
qed

lemma map_from_nth:
  "map_from f i xs = map (\<lambda>j. f (xs ! j) (i + j)) [0..<length xs]"
proof (induction xs arbitrary: i)
  case Nil
  show ?case by simp
next
  case (Cons x xs)
  have "map (\<lambda>j. f ((x # xs) ! j) (i + j)) [0..<length (x # xs)]
      = f x i # map (\<lambda>j. f (xs ! j) (Suc i + j)) [0..<length xs]"
    by (simp add: upt_conv_Cons map_Suc_upt [symmetric] del: upt_Suc)
  with Cons show ?case by simp
qed

lemma HomepageFeatures_run_on_table:
  assumes t: "table_at h table = Some items"
  shows "HomepageFeatures_run styles table h
           = Some (HomepageFeatures_of styles items, heap_after h items)"
proof -
  from t obtain cells where c: "lookup h table = Some (ArrayObj cells)"
    and m: "map (item_of_cell h) cells = map Some items"
    by (auto simp: table_at_cells)
  from m have len: "length cells = length items" by (metis length_map)
  let ?els = "map (\<lambda>j. FeatureEl (Some j) (length h + j)) [0..<length items]"
  let ?h1 = "h @ map ItemObj items"
  let ?h2 = "heap_after h items"
  have "map_steps feature_callback table 0 (length cells) h
          = Some (map (\<lambda>j. FeatureEl (Some (0 + j)) (length h + j)) [0..<length cells],
                  h @ map ItemObj (take (length cells) (drop 0 items)))"
    using c m by (rule map_steps_callback) simp
  then have steps: "map_steps feature_callback table 0 (length cells) h = Some (?els, ?h1)"
    by (simp add: len)
  have mapped: "array_map_heap feature_callback table h = Some (length h + length items, ?h2)"
    by (simp add: array_map_heap_def array_length_def c steps alloc_def heap_after_def)
  have at: "lookup ?h2 (length h + length items) = Some (ArrayObj ?els)"
    by (simp add: lookup_def heap_after_def nth_append)
  have "map (element_of_cell ?h2) ?els
      = map Some (map_from (\<lambda>props idx. FeatureElement (Some idx) (title props) (Svg props)
                              (description props)) 0 items)"
    by (simp add: map_from_nth element_of_cell_def read_item_def lookup_def heap_after_def
          nth_append)
  then have kids: "children_at ?h2 (length h + length items)
      = Some (array_map (\<lambda>props idx. FeatureElement (Some idx) (title props) (Svg props)
                (description props)) items)"
    by (simp add: children_at_def at those_eq_Some array_map_def)
  show ?thesis
    by (simp add: HomepageFeatures_run_def mapped kids HomepageFeatures_of_def)
qed

lemma render_pass_on_table:
  assumes "table_at h table = Some items"
  shows "render_pass styles table h
           = Some (render styles (HomepageFeatures_of styles items), heap_after h items)"
  by (simp add: render_pass_def HomepageFeatures_run_on_table [OF assms])

lemma table_at_heap_after:
  "table_at h table = Some items \<Longrightarrow> table_at (heap_after h items) table = Some items"
  unfolding heap_after_def by (rule table_at_append)


lemma table_at_initial_heap: "table_at initial_heap FeatureList_addr = Some FeatureList"
  by (simp add: table_at_def initial_heap_def FeatureList_addr_def lookup_def item_of_cell_def
        read_item_def FeatureList_def)

lemma length_heap_after: "length (heap_after h items) = length h + length items + 1"
  by (simp add: heap_after_def)

lemma take_heap_after: "take (length h) (heap_after h items) = h"
  by (simp add: heap_after_def)

lemma heap_after_neq: "heap_after h items \<noteq> h"
  by (simp add: heap_after_def)

text \<open>
  C6. Rendering never fails on a table, whatever its length: on every heap that holds a
  table at the address, the render pass returns a tree, the rendered section, with one
  row child per item.  For the empty table this tree is the section holding the container
  holding a row without children, so it has no block.
\<close>

theorem C6_every_table_renders_without_failure:
  assumes "table_at h table = Some items"
  shows "(\<exists>tree h'. render_pass styles table h = Some (tree, h')
            \<and> length (row_children tree) = length items)
         \<and> map_option fst (render_pass styles table h)
             = Some (render styles (HomepageFeatures_of styles items))
         \<and> render styles (HomepageFeatures_of styles [])
             = Element (Intrinsic ''section'') [(''className'', features styles)]
                 [Element (Intrinsic ''div'') [(''className'', ''container'')]
                    [Element (Intrinsic ''div'') [(''className'', ''row'')] []]]
         \<and> blocks styles (HomepageFeatures_of styles []) = []"
proof -
  note run = render_pass_on_table [OF assms, of styles]
  have "length (row_children (render styles (HomepageFeatures_of styles items))) = length items"
    using blocks_HomepageFeatures_of [of styles items] by (simp add: blocks_def)
  with run have some: "\<exists>tree h'. render_pass styles table h = Some (tree, h')
            \<and> length (row_children tree) = length items"
    by simp
  have tree: "map_option fst (render_pass styles table h)
             = Some (render styles (HomepageFeatures_of styles items))"
    by (simp add: run)
  have empty: "render styles (HomepageFeatures_of styles [])
             = Element (Intrinsic ''section'') [(''className'', features styles)]
                 [Element (Intrinsic ''div'') [(''className'', ''container'')]
                    [Element (Intrinsic ''div'') [(''className'', ''row'')] []]]"
    by (simp add: HomepageFeatures_of_def array_map_def)
  have none: "blocks styles (HomepageFeatures_of styles []) = []"
    by (simp add: blocks_def HomepageFeatures_of_def array_map_def)
  from some tree empty none show ?thesis by blast
qed

theorem C6_every_table_renders_without_failure_witness:
  "table_at [ArrayObj []] 0 = Some []
   \<and> map_option fst (render_pass \<lparr>features = ''features'', featureSvg = ''featureSvg''\<rparr> 0 [ArrayObj []])
       = Some (Element (Intrinsic ''section'') [(''className'', ''features'')]
                 [Element (Intrinsic ''div'') [(''className'', ''container'')]
                    [Element (Intrinsic ''div'') [(''className'', ''row'')] []]])"
proof -
  let ?styles = "\<lparr>features = ''features'', featureSvg = ''featureSvg''\<rparr>"
  have t: "table_at [ArrayObj []] 0 = Some []"
    by (simp add: table_at_def lookup_def)
  note all = C6_every_table_renders_without_failure [OF t, of ?styles]
  note run = conjunct1 [OF conjunct2 [OF all]]
  note empty = conjunct1 [OF conjunct2 [OF conjunct2 [OF all]]]
  from t run empty show ?thesis by simp
qed

text \<open>
  C7. A render pass is deterministic: the tree it returns is determined by the items of
  the table.  Two passes over tables with the same items return the same tree, whatever
  else their heaps hold and wherever the tables lie; a second pass, run on the heap the
  first one left (which differs from the heap the first one started on), returns the tree
  of the first, and so does every function \<open>to_bytes\<close> of the tree, such as its
  serialisation to markup.
\<close>

theorem C7_render_is_deterministic:
  assumes "table_at h table = Some items" and "table_at h2 table2 = Some items"
  shows "\<exists>tree h'. render_pass styles table h = Some (tree, h')
           \<and> map_option fst (render_pass styles table2 h2) = Some tree
           \<and> h' \<noteq> h
           \<and> map_option fst (render_pass styles table h') = Some tree
           \<and> map_option (\<lambda>r. to_bytes (fst r)) (render_pass styles table h')
               = Some (to_bytes tree)"
proof -
  let ?tree = "render styles (HomepageFeatures_of styles items)"
  let ?h' = "heap_after h items"
  have first: "render_pass styles table h = Some (?tree, ?h')"
    using assms(1) by (rule render_pass_on_table)
  have other: "map_option fst (render_pass styles table2 h2) = Some ?tree"
    by (simp add: render_pass_on_table [OF assms(2)])
  have "table_at ?h' table = Some items"
    using assms(1) by (rule table_at_heap_after)
  then have again: "render_pass styles table ?h' = Some (?tree, heap_after ?h' items)"
    by (rule render_pass_on_table)
  from first other heap_after_neq [of h items] again show ?thesis by simp
qed

theorem C7_render_is_deterministic_witness:
  "table_at initial_heap FeatureList_addr = Some FeatureList
   \<and> table_at (ArrayObj [] # map ItemObj FeatureList @ [ArrayObj [ItemRef 1, ItemRef 2, ItemRef 3]]) 4
       = Some FeatureList
   \<and> map_option fst (render_pass \<lparr>features = ''features'', featureSvg = ''featureSvg''\<rparr>
         4 (ArrayObj [] # map ItemObj FeatureList @ [ArrayObj [ItemRef 1, ItemRef 2, ItemRef 3]]))
     = map_option fst (render_pass \<lparr>features = ''features'', featureSvg = ''featureSvg''\<rparr>
         FeatureList_addr initial_heap)"
proof -
  have a: "table_at initial_heap FeatureList_addr = Some FeatureList"
    by (rule table_at_initial_heap)
  have b: "table_at (ArrayObj [] # map ItemObj FeatureList @ [ArrayObj [ItemRef 1, ItemRef 2, ItemRef 3]]) 4
       = Some FeatureList"
    by (simp add: table_at_def lookup_def item_of_cell_def read_item_def FeatureList_def)
  from C7_render_is_deterministic
         [where styles = "\<lparr>features = ''features'', featureSvg = ''featureSvg''\<rparr>"
            and to_bytes = "\<lambda>t. []", OF a b]
  obtain tree h' where
    "render_pass \<lparr>features = ''features'', featureSvg = ''featureSvg''\<rparr>
       FeatureList_addr initial_heap = Some (tree, h')"
    "map_option fst (render_pass \<lparr>features = ''features'', featureSvg = ''featureSvg''\<rparr>
         4 (ArrayObj [] # map ItemObj FeatureList @ [ArrayObj [ItemRef 1, ItemRef 2, ItemRef 3]]))
     = Some tree"
    by blast
  then have "map_option fst (render_pass \<lparr>features = ''features'', featureSvg = ''featureSvg''\<rparr>
         4 (ArrayObj [] # map ItemObj FeatureList @ [ArrayObj [ItemRef 1, ItemRef 2, ItemRef 3]]))
     = map_option fst (render_pass \<lparr>features = ''features'', featureSvg = ''featureSvg''\<rparr>
         FeatureList_addr initial_heap)"
    by simp
  with a b show ?thesis by blast
qed

text \<open>
  C8. A render pass leaves its input as it was: every object the heap held before the
  pass is unchanged after it, the table still holds the same items (titles, icon
  references and descriptions), and the only effect of the pass is the allocation of one
  props object per item and of one array.  The module calls no input/output primitive.
\<close>

theorem C8_render_leaves_input_unchanged:
  assumes "table_at h table = Some items"
  shows "\<exists>tree h'. render_pass styles table h = Some (tree, h')
           \<and> take (length h) h' = h
           \<and> table_at h' table = Some items
           \<and> length h' = length h + length items + 1"
proof -
  have "render_pass styles table h
          = Some (render styles (HomepageFeatures_of styles items), heap_after h items)"
    using assms by (rule render_pass_on_table)
  moreover have "table_at (heap_after h items) table = Some items"
    using assms by (rule table_at_heap_after)
  ultimately show ?thesis
    by (simp add: take_heap_after length_heap_after)
qed

theorem C8_render_leaves_input_unchanged_witness:
  "table_at initial_heap FeatureList_addr = Some FeatureList
   \<and> (\<exists>tree h'. render_pass \<lparr>features = ''features'', featureSvg = ''featureSvg''\<rparr>
                    FeatureList_addr initial_heap = Some (tree, h')
           \<and> take 4 h' = initial_heap
           \<and> table_at h' FeatureList_addr = Some FeatureList
           \<and> length h' = 8)"
proof -
  have a: "table_at initial_heap FeatureList_addr = Some FeatureList"
    by (rule table_at_initial_heap)
  have l: "length initial_heap = 4" "length FeatureList = 3"
    by (simp_all add: initial_heap_def FeatureList_def)
  from C8_render_leaves_input_unchanged
         [OF a, of "\<lparr>features = ''features'', featureSvg = ''featureSvg''\<rparr>"] a l
  show ?thesis by simp
qed

lemma key_map_from:
  "map key_of
     (map_from (\<lambda>props idx. FeatureElement (Some idx) (title props) (Svg props) (description props)) i items)
   = map Some [i..<i + length items]"
proof (induction items arbitrary: i)
  case Nil
  show ?case by simp
next
  case (Cons item items)
  have "[i..<i + length (item # items)] = i # [Suc i..<Suc i + length items]"
    by (simp add: upt_rec)
  with Cons show ?case by simp
qed

lemma blocks_are_rendered_row_children:
  "blocks styles (HomepageFeatures_of styles items)
   = map (render styles) (row_children (HomepageFeatures_of styles items))"
  by (simp add: blocks_def HomepageFeatures_of_def)

text \<open>
  C9. The elements the component puts into the row carry the keys 0, 1, ..., N - 1 in
  this order, each element rendering to the block at its position, so the keys are
  pairwise distinct.
\<close>

theorem C9_keys_are_indices:
  "map key_of (row_children (HomepageFeatures_of styles items)) = map Some [0..<length items]
   \<and> distinct (map key_of (row_children (HomepageFeatures_of styles items)))
   \<and> map (\<lambda>e. (key_of e, render styles e)) (row_children (HomepageFeatures_of styles items))
       = zip (map Some [0..<length items]) (blocks styles (HomepageFeatures_of styles items))"
proof -
  let ?cs = "row_children (HomepageFeatures_of styles items)"
  have keys: "map key_of ?cs = map Some [0..<length items]"
    by (simp add: HomepageFeatures_of_def array_map_def key_map_from)
  have dist: "distinct (map key_of ?cs)"
    unfolding keys by (simp add: distinct_map)
  have "map (\<lambda>e. (key_of e, render styles e)) ?cs = zip (map key_of ?cs) (map (render styles) ?cs)"
    by (simp add: zip_map_map zip_same_conv_map)
  then have pairs: "map (\<lambda>e. (key_of e, render styles e)) ?cs
       = zip (map Some [0..<length items]) (blocks styles (HomepageFeatures_of styles items))"
    by (simp only: keys blocks_are_rendered_row_children)
  from keys dist pairs show ?thesis by blast
qed

text \<open>
  C10. In the block \<open>Feature\<close> builds, the heading is an element of the theme's heading
  component with the prop \<open>as\<close> set to \<open>h3\<close>, whatever the item; so every block of the
  rendered section has its heading at level h3, whatever its position.
\<close>

theorem C10_heading_level_is_h3:
  "Option.bind (block_heading (Feature styles item)) element_type_of = Some Heading
   \<and> Option.bind (block_heading (Feature styles item)) (prop_of ''as'') = Some ''h3''
   \<and> map (\<lambda>b. Option.bind (block_heading b) (prop_of ''as''))
         (blocks styles (HomepageFeatures_of styles items))
       = map (\<lambda>item. Some ''h3'') items"
  by (simp add: blocks_HomepageFeatures_of Feature_def)

end
